theory Spec2Isabelle
  imports Main
begin

section \<open>Brick breaker: the ball's heading\<close>

text \<open>
  The embedding follows \<^verbatim>\<open>src/game.py\<close>. Python integers are unbounded, so
  coordinates are \<^typ>\<open>int\<close>; the enum \<^verbatim>\<open>Direction\<close> is a datatype whose
  constructors keep the order of the source.
\<close>

type_synonym Coord = "int \<times> int"

datatype Direction = UP | UP_RIGHT | DOWN_RIGHT | DOWN | DOWN_LEFT | UP_LEFT

text \<open>\<^verbatim>\<open>Direction.is_down\<close>: a chain of three equality tests.\<close>

definition is_down :: "Direction \<Rightarrow> bool" where
  "is_down d = (d = DOWN_LEFT \<or> d = DOWN \<or> d = DOWN_RIGHT)"

text \<open>\<^verbatim>\<open>Direction.delta\<close>: a \<^verbatim>\<open>match\<close> with one case per variant.\<close>

fun delta :: "Direction \<Rightarrow> int \<times> int" where
  "delta UP = (0, -1)"
| "delta UP_RIGHT = (1, -1)"
| "delta DOWN_RIGHT = (1, 1)"
| "delta DOWN = (0, 1)"
| "delta DOWN_LEFT = (-1, 1)"
| "delta UP_LEFT = (-1, -1)"

text \<open>
  \<^verbatim>\<open>Direction.get_adjacent_coords\<close>: the three cells to test, in clockwise order
  (the first is called left, the second front, the third right).
\<close>

definition get_adjacent_coords :: "Direction \<Rightarrow> int \<Rightarrow> int \<Rightarrow> Coord \<times> Coord \<times> Coord" where
  "get_adjacent_coords d x y =
     (if d = UP then ((x - 1, y - 1), (x, y - 1), (x + 1, y - 1))
      else if d = UP_RIGHT then ((x, y - 1), (x + 1, y - 1), (x + 1, y))
      else if d = DOWN_RIGHT then ((x + 1, y), (x + 1, y + 1), (x, y + 1))
      else if d = DOWN then ((x - 1, y + 1), (x, y + 1), (x + 1, y + 1))
      else if d = DOWN_LEFT then ((x, y + 1), (x - 1, y + 1), (x - 1, y))
      else ((x - 1, y), (x - 1, y - 1), (x, y - 1)))"

text \<open>
  \<^verbatim>\<open>Direction.new_direction\<close>: the reflection table, branch for branch as the
  source writes it.
\<close>

definition new_direction :: "Direction \<Rightarrow> bool \<Rightarrow> bool \<Rightarrow> bool \<Rightarrow> Direction" where
  "new_direction d on_left in_front on_right =
     (if d = UP then
        (if in_front then DOWN else UP)
      else if d = UP_RIGHT then
        (if on_left \<and> in_front \<and> on_right then DOWN_LEFT
         else if on_left \<and> in_front \<and> \<not> on_right then DOWN_RIGHT
         else if on_left \<and> \<not> in_front \<and> on_right then DOWN_LEFT
         else if on_left \<and> \<not> in_front \<and> \<not> on_right then DOWN_RIGHT
         else if \<not> on_left \<and> in_front \<and> on_right then UP_LEFT
         else if \<not> on_left \<and> in_front \<and> \<not> on_right then DOWN_LEFT
         else if \<not> on_left \<and> \<not> in_front \<and> on_right then UP_LEFT
         else UP_RIGHT)
      else if d = DOWN_RIGHT then
        (if on_left \<and> in_front \<and> on_right then UP_LEFT
         else if on_left \<and> in_front \<and> \<not> on_right then DOWN_LEFT
         else if on_left \<and> \<not> in_front \<and> on_right then UP_LEFT
         else if on_left \<and> \<not> in_front \<and> \<not> on_right then DOWN_LEFT
         else if \<not> on_left \<and> in_front \<and> on_right then UP_RIGHT
         else if \<not> on_left \<and> in_front \<and> \<not> on_right then UP_LEFT
         else if \<not> on_left \<and> \<not> in_front \<and> on_right then UP_RIGHT
         else DOWN_RIGHT)
      else if d = DOWN then
        (if in_front then UP else DOWN)
      else if d = DOWN_LEFT then
        (if on_left \<and> in_front \<and> on_right then UP_RIGHT
         else if on_left \<and> in_front \<and> \<not> on_right then UP_LEFT
         else if on_left \<and> \<not> in_front \<and> on_right then UP_RIGHT
         else if on_left \<and> \<not> in_front \<and> \<not> on_right then UP_LEFT
         else if \<not> on_left \<and> in_front \<and> on_right then DOWN_RIGHT
         else if \<not> on_left \<and> in_front \<and> \<not> on_right then UP_RIGHT
         else if \<not> on_left \<and> \<not> in_front \<and> on_right then DOWN_RIGHT
         else DOWN_LEFT)
      else
        (if on_left \<and> in_front \<and> on_right then DOWN_RIGHT
         else if on_left \<and> in_front \<and> \<not> on_right then UP_RIGHT
         else if on_left \<and> \<not> in_front \<and> on_right then DOWN_RIGHT
         else if on_left \<and> \<not> in_front \<and> \<not> on_right then UP_RIGHT
         else if \<not> on_left \<and> in_front \<and> on_right then DOWN_LEFT
         else if \<not> on_left \<and> in_front \<and> \<not> on_right then DOWN_RIGHT
         else if \<not> on_left \<and> \<not> in_front \<and> on_right then DOWN_LEFT
         else UP_LEFT))"

text \<open>The constants of \<^verbatim>\<open>src/constants.py\<close> that the game logic reads.\<close>

definition rows :: int where "rows = 50"
definition columns :: int where "columns = 40"
definition paddle_width :: int where "paddle_width = 9"




text \<open>The two heading classes: straight up or down, and the four diagonals.\<close>

definition is_vertical :: "Direction \<Rightarrow> bool" where
  "is_vertical d = (d = UP \<or> d = DOWN)"

definition is_diagonal :: "Direction \<Rightarrow> bool" where
  "is_diagonal d = (d = UP_RIGHT \<or> d = DOWN_RIGHT \<or> d = DOWN_LEFT \<or> d = UP_LEFT)"

section \<open>The grid and the game state\<close>

text \<open>
  \<^verbatim>\<open>Block\<close> is a dataclass with a colour and the list of cells it occupies;
  \<^verbatim>\<open>Matrix\<close> is \<^verbatim>\<open>dict[tuple[int, int], Block | None]\<close>: a key may be absent
  (lookup gives \<open>None\<close> in the model), present with the Python value \<^verbatim>\<open>None\<close>
  (\<open>Some None\<close>), or present with a block (\<open>Some (Some b)\<close>).
\<close>

record Block =
  color :: "int \<times> int \<times> int"
  coords :: "Coord list"

type_synonym Matrix = "Coord \<rightharpoonup> Block option"

text \<open>The only exception the game logic raises.\<close>

datatype error = NotImplementedError

text \<open>
  \<^verbatim>\<open>make_matrix\<close> takes no argument. Its body in \<^verbatim>\<open>src/game.py\<close> is the single
  statement \<^verbatim>\<open>raise NotImplementedError\<close> after the docstring: no random draw is
  made and no dictionary is built, so the result is the error.
\<close>

definition make_matrix :: "error + Matrix" where
  "make_matrix = Inl NotImplementedError"

text \<open>The dataclass \<^verbatim>\<open>GameState\<close>, field for field.\<close>

record GameState =
  matrix :: Matrix
  frame_count :: int
  paddle_pos :: int
  ball_x :: int
  ball_y :: int
  ball_direction :: Direction

text \<open>
  \<^verbatim>\<open>GameState(m)\<close>: the constructor with the defaults of the dataclass. Python's
  \<^verbatim>\<open>//\<close> rounds down, as \<open>div\<close> on \<^typ>\<open>int\<close> does.
\<close>

definition new_GameState :: "Matrix \<Rightarrow> GameState" where
  "new_GameState m =
     \<lparr>matrix = m, frame_count = 0, paddle_pos = (columns - paddle_width) div 2,
      ball_x = columns div 2, ball_y = rows - 2, ball_direction = UP_RIGHT\<rparr>"

text \<open>
  \<^verbatim>\<open>GameState.update\<close>: the body is again only \<^verbatim>\<open>raise NotImplementedError\<close>.
  A normal return would give the boolean and the mutated state.
\<close>

definition update :: "GameState \<Rightarrow> error + (bool \<times> GameState)" where
  "update s = Inl NotImplementedError"

section \<open>Properties of the heading\<close>

text \<open>
  C1 (as the specification states it): reflecting DOWN_RIGHT with on_left = False,
  in_front = True, on_right = True gives UP_LEFT. The table does not do this: the result
  is not UP_LEFT.
\<close>

theorem C1_down_right_floor_not_up_left:
  "new_direction DOWN_RIGHT False True True \<noteq> UP_LEFT"
  by (simp add: new_direction_def)

text \<open>
  C1 (amended): reflecting DOWN_RIGHT with on_left = False, in_front = True,
  on_right = True gives UP_RIGHT. For DOWN_RIGHT the third cell of the clockwise triple is
  the one below the ball, so only the vertical axis is reversed.
\<close>

theorem C1_down_right_floor_up_right:
  "new_direction DOWN_RIGHT False True True = UP_RIGHT"
  by (simp add: new_direction_def)

text \<open>
  C2: for every heading and every integer position, the middle (front) cell of
  get_adjacent_coords is the position advanced by delta.
\<close>

theorem C2_front_is_delta_step:
  "fst (snd (get_adjacent_coords d x y)) = (x + fst (delta d), y + snd (delta d))"
  by (cases d) (simp_all add: get_adjacent_coords_def)

text \<open>
  C3: for UP and DOWN the reflection depends on in_front only: a blocked front cell
  reverses the heading, a free one keeps it, whatever on_left and on_right are.
\<close>

theorem C3_vertical_ignores_sides:
  "new_direction UP on_left True on_right = DOWN \<and>
   new_direction UP on_left False on_right = UP \<and>
   new_direction DOWN on_left True on_right = UP \<and>
   new_direction DOWN on_left False on_right = DOWN"
  by (simp add: new_direction_def)

text \<open>C4: with no cell occupied the reflection returns the heading unchanged.\<close>

theorem C4_nothing_hit_identity:
  "new_direction d False False False = d"
  by (cases d) (simp_all add: new_direction_def)

text \<open>
  C5: delta returns the six unit steps listed in the specification, and its vertical
  component is never 0.
\<close>

theorem C5_delta_table:
  "delta UP = (0, -1) \<and> delta UP_RIGHT = (1, -1) \<and> delta DOWN_RIGHT = (1, 1) \<and>
   delta DOWN = (0, 1) \<and> delta DOWN_LEFT = (-1, 1) \<and> delta UP_LEFT = (-1, -1) \<and>
   snd (delta d) \<noteq> 0"
  by (cases d) simp_all

text \<open>
  C8: is_down is True for DOWN_LEFT, DOWN and DOWN_RIGHT and False for UP, UP_RIGHT and
  UP_LEFT.
\<close>

theorem C8_is_down_table:
  "is_down DOWN_LEFT \<and> is_down DOWN \<and> is_down DOWN_RIGHT \<and>
   \<not> is_down UP \<and> \<not> is_down UP_RIGHT \<and> \<not> is_down UP_LEFT"
  by (simp add: is_down_def)




text \<open>
  C10: the reflection keeps the heading class: a diagonal heading is reflected to a
  diagonal heading and a vertical heading to a vertical one, for every occupancy.
\<close>

theorem C10_class_preserved:
  "(is_diagonal d \<longrightarrow> is_diagonal (new_direction d on_left in_front on_right)) \<and>
   (is_vertical d \<longrightarrow> is_vertical (new_direction d on_left in_front on_right))"
  by (cases d) (simp_all add: new_direction_def is_diagonal_def is_vertical_def)

theorem C10_class_preserved_witness:
  "is_diagonal UP_RIGHT \<and> is_diagonal (new_direction UP_RIGHT False True True) \<and>
   is_vertical DOWN \<and> is_vertical (new_direction DOWN True True False)"
proof -
  have a: "is_diagonal UP_RIGHT" by (simp add: is_diagonal_def)
  have b: "is_vertical DOWN" by (simp add: is_vertical_def)
  from C10_class_preserved [of UP_RIGHT False True True] a
  have c: "is_diagonal (new_direction UP_RIGHT False True True)" by blast
  from C10_class_preserved [of DOWN True True False] b
  have e: "is_vertical (new_direction DOWN True True False)" by blast
  from a b c e show ?thesis by blast
qed

section \<open>Properties of the generator and of the frame step\<close>

text \<open>
  C6: the specification says that every call of make_matrix returns a Matrix whose outer
  ring holds border blocks. The code does not get that far: every call raises
  NotImplementedError, so no Matrix is returned at all, although the docstring of the
  function promises the generated Matrix with its borders.
\<close>

theorem C6_make_matrix_raises:
  "make_matrix = Inl NotImplementedError \<and> (\<nexists>m. make_matrix = Inr m)"
  by (simp add: make_matrix_def)

text \<open>
  C7: the specification says that update completes normally for every GameState and
  returns a boolean. The code raises NotImplementedError for every GameState, here
  evaluated at the state the program starts from (defaults of the dataclass over an empty
  dictionary) and stated for an arbitrary state.
\<close>

theorem C7_update_raises:
  "update (new_GameState Map.empty) = Inl NotImplementedError \<and>
   update s = Inl NotImplementedError \<and> (\<nexists>b s'. update s = Inr (b, s'))"
  by (simp add: update_def)

end
